theory Spec2Isabelle
  imports Complex_Main
begin

section \<open>Dense vectors and matrices\<close>

text \<open>
  The solver works on \<^verbatim>\<open>Eigen::VectorXd\<close> and \<^verbatim>\<open>Eigen::MatrixXd\<close>. A vector is the list
  of its coefficients and a matrix the list of its rows, so \<^verbatim>\<open>A(i, j)\<close> is \<open>A ! i ! j\<close>.
  Eigen requires the operands of \<^verbatim>\<open>+=\<close>, \<^verbatim>\<open>-=\<close> and of a product to have matching sizes;
  the theorems below state the sizes they need with \<open>mat_ok\<close>.

  The coefficients are \<^verbatim>\<open>double\<close>s in the program. The two stiffness polynomials, whose
  values are stated below, are defined over the arithmetic of the program, which is a
  parameter (\<open>arith\<close>, below): what is proved of them holds whatever the operations on
  \<^verbatim>\<open>double\<close> compute. The other operations are written on real numbers with exact
  operations; they are evaluated below only on small integers, where the operations on
  \<^verbatim>\<open>double\<close> are exact, or in statements that do not depend on the coefficients.
\<close>

type_synonym vec = "real list"
type_synonym mat = "real list list"

definition mat_ok :: "nat \<Rightarrow> nat \<Rightarrow> 'a list list \<Rightarrow> bool" where
  "mat_ok r c A = (length A = r \<and> list_all (\<lambda>row. length row = c) A)"

definition zero_vec :: "nat \<Rightarrow> vec" where
  "zero_vec n = replicate n 0"

definition zero_mat :: "nat \<Rightarrow> nat \<Rightarrow> mat" where
  "zero_mat r c = replicate r (replicate c 0)"

definition vec_add :: "vec \<Rightarrow> vec \<Rightarrow> vec" where
  "vec_add u v = map2 (+) u v"

definition vec_sub :: "vec \<Rightarrow> vec \<Rightarrow> vec" where
  "vec_sub u v = map2 (-) u v"

definition vec_scale :: "real \<Rightarrow> vec \<Rightarrow> vec" where
  "vec_scale k v = map ((*) k) v"

definition dot :: "vec \<Rightarrow> vec \<Rightarrow> real" where
  "dot u v = sum_list (map2 (*) u v)"

definition mat_add :: "mat \<Rightarrow> mat \<Rightarrow> mat" where
  "mat_add A B = map2 vec_add A B"

definition mat_sub :: "mat \<Rightarrow> mat \<Rightarrow> mat" where
  "mat_sub A B = map2 vec_sub A B"

definition mat_scale :: "real \<Rightarrow> mat \<Rightarrow> mat" where
  "mat_scale k A = map (vec_scale k) A"

definition mat_vec :: "mat \<Rightarrow> vec \<Rightarrow> vec" where
  "mat_vec A v = map (\<lambda>row. dot row v) A"

definition outer :: "vec \<Rightarrow> vec \<Rightarrow> mat" where
  "outer u v = map (\<lambda>x. vec_scale x v) u"

definition col :: "mat \<Rightarrow> nat \<Rightarrow> vec" where
  "col A k = map (\<lambda>row. row ! k) A"

definition set_col :: "mat \<Rightarrow> nat \<Rightarrow> vec \<Rightarrow> mat" where
  "set_col A k v = map2 (\<lambda>row x. row[k := x]) A v"

definition mat_of_entries :: "nat \<Rightarrow> nat \<Rightarrow> (nat \<Rightarrow> nat \<Rightarrow> 'a) \<Rightarrow> 'a list list" where
  "mat_of_entries r c f = map (\<lambda>i. map (\<lambda>j. f i j) [0..<c]) [0..<r]"

section \<open>The arithmetic of the program\<close>

text \<open>
  The operations on \<^verbatim>\<open>double\<close> that the stiffness polynomials use, over a type \<open>'d\<close> of
  values: sum, difference and product, \<open>d_pow x k\<close> for \<^verbatim>\<open>pow(x, y)\<close> with \<open>y\<close> the
  \<^verbatim>\<open>double\<close> of the integer value \<open>k\<close>, and the conversion of an \<^verbatim>\<open>int\<close>. Nothing is
  assumed of them: rounding, overflow to an infinity and NaN are what the operations of
  the machine make them. \<open>exact_arith\<close> is the arithmetic of the real numbers.
\<close>

record 'd arith =
  d_add :: "'d \<Rightarrow> 'd \<Rightarrow> 'd"
  d_sub :: "'d \<Rightarrow> 'd \<Rightarrow> 'd"
  d_mul :: "'d \<Rightarrow> 'd \<Rightarrow> 'd"
  d_pow :: "'d \<Rightarrow> nat \<Rightarrow> 'd"
  d_of_int :: "int \<Rightarrow> 'd"

definition exact_arith :: "real arith" where
  "exact_arith = \<lparr>d_add = (+), d_sub = (-), d_mul = (*), d_pow = (^), d_of_int = of_int\<rparr>"

text \<open>
  Eigen evaluates \<^verbatim>\<open>A += c * B\<close> and \<^verbatim>\<open>A -= c * B\<close> coefficient by coefficient: \<open>cwise\<close>
  applies an operation to every coefficient of a matrix, \<open>cwise2\<close> to the coefficients of
  two matrices at the same place.
\<close>

definition cwise :: "('a \<Rightarrow> 'b) \<Rightarrow> 'a list list \<Rightarrow> 'b list list" where
  "cwise f A = map (map f) A"

definition cwise2 :: "('a \<Rightarrow> 'b \<Rightarrow> 'c) \<Rightarrow> 'a list list \<Rightarrow> 'b list list \<Rightarrow> 'c list list" where
  "cwise2 f A B = map2 (map2 f) A B"

section \<open>Matrix-polynomial evaluators\<close>

text \<open>
  The four evaluators read the member \<^verbatim>\<open>m_NumberOfMassMtx\<close>, here the argument \<open>m\<close>,
  and index the vector \<^verbatim>\<open>MM\<close> with the loop counter. A C++ \<^verbatim>\<open>for\<close> loop over
  \<^verbatim>\<open>jj = a, ..., b - 1\<close> that updates one matrix is a \<open>fold\<close> over \<open>[a..<b]\<close>.
  \<^verbatim>\<open>pow(omega, jj + 1.0)\<close> is the power of \<open>omega\<close> with the exponent \<open>jj + 1\<close>. Reading
  \<^verbatim>\<open>MM[jj]\<close> beyond the size of the vector is undefined in C++; the theorems assume
  \<open>length MM\<close> is the member's value, which is what the reader establishes.
\<close>

definition getFreqDependentStiffMtx ::
  "'d arith \<Rightarrow> nat \<Rightarrow> 'd list list \<Rightarrow> 'd list list list \<Rightarrow> 'd \<Rightarrow> 'd list list" where
  "getFreqDependentStiffMtx ar m K0 MM omega =
     fold (\<lambda>jj Kn.
        cwise2 (d_add ar) Kn
          (cwise (d_mul ar (d_mul ar (d_of_int ar (int jj)) (d_pow ar omega (jj + 1)))) (MM ! jj)))
       [1..<m] K0"

definition getFreqDependentMassMtx :: "nat \<Rightarrow> mat list \<Rightarrow> real \<Rightarrow> mat" where
  "getFreqDependentMassMtx m MM omega =
     fold (\<lambda>jj Mn. mat_add Mn (mat_scale ((real jj + 1) * omega ^ jj) (MM ! jj))) [1..<m] (MM ! 0)"

definition getGeneralizedFreqDependentMassMtx :: "nat \<Rightarrow> nat \<Rightarrow> mat list \<Rightarrow> real \<Rightarrow> real \<Rightarrow> mat" where
  "getGeneralizedFreqDependentMassMtx n m MM lr ls =
     fold (\<lambda>jj Mlrls.
        fold (\<lambda>kk Mlrls. mat_add Mlrls (mat_scale (lr ^ kk * ls ^ (jj - kk)) (MM ! jj)))
          [0..<jj + 1] Mlrls)
       [0..<m] (zero_mat n n)"

definition getEffectiveStiffMtx ::
  "'d arith \<Rightarrow> nat \<Rightarrow> 'd list list \<Rightarrow> 'd list list list \<Rightarrow> 'd \<Rightarrow> 'd list list" where
  "getEffectiveStiffMtx ar m K0 MM omega =
     fold (\<lambda>jj Keff.
        cwise2 (d_sub ar) Keff (cwise (d_mul ar (d_pow ar omega (jj + 1))) (MM ! jj)))
       [0..<m] K0"

definition projectEffectiveStiffMatrix :: "mat \<Rightarrow> mat \<Rightarrow> nat \<Rightarrow> mat" where
  "projectEffectiveStiffMatrix Keff B_s indexEig =
     fold (\<lambda>ii Keff.
        mat_add Keff (outer (vec_sub (col B_s ii) (mat_vec Keff (col B_s ii))) (col B_s ii)))
       [0..<indexEig] Keff"

section \<open>The solver object, logging and effects\<close>

text \<open>
  The members of \<^verbatim>\<open>NLEigenJacobiDavidson\<close> as the constructor initialises them. The three
  counts are read from the input file; they are natural numbers here (the file format
  declares sizes). \<^verbatim>\<open>m_MaxIter\<close> and the iteration counter are integers, as in the source.
\<close>

record solver =
  m_Dimensions :: nat
  m_NumberOfMassMtx :: nat
  m_NumberOfEigenValues :: nat
  m_MaxIter :: int
  m_TOL :: real
  m_FilePath :: string

definition NLEigenJacobiDavidson :: "string \<Rightarrow> solver" where
  "NLEigenJacobiDavidson filepath =
     \<lparr>m_Dimensions = 0, m_NumberOfMassMtx = 1, m_NumberOfEigenValues = 0,
      m_MaxIter = 20, m_TOL = 1 / 10 ^ 12, m_FilePath = filepath\<rparr>"

datatype log_arg = ArgInt int | ArgReal real | ArgMat mat

text \<open>
  Modelled from the spec: the macros \<^verbatim>\<open>LOG_INFO\<close>, \<^verbatim>\<open>LOG_ERROR\<close> and \<^verbatim>\<open>LOG_ASSERT\<close>,
  declared in a header that is not among the sources. Following the specification
  (sections 7 and 9) each writes a message and returns: an assertion logs and the program
  continues. Calls are recorded in the order they are made; a \<open>LOG_ASSERT\<close> entry keeps
  the value of the condition it was called with.
\<close>

datatype log_call =
    LOG_INFO string "log_arg list"
  | LOG_ERROR string
  | LOG_ASSERT bool string

datatype file_content = PhiData nat nat mat | OmegaData nat vec

datatype effect = Log log_call | Create string | Write string file_content

datatype fatal = Exit nat

fun is_write :: "effect \<Rightarrow> bool" where
  "is_write (Write path c) = True"
| "is_write e = False"

section \<open>Reading the problem definition\<close>

text \<open>
  The input file is modelled after its header line and its line of three counts: what
  follows is a sequence of pieces of text for \<^verbatim>\<open>fid >> x\<close>, \<open>x\<close> a \<^verbatim>\<open>double\<close>, to read:
  \<^item> \<open>Num v\<close>: a number within the range of \<^verbatim>\<open>double\<close>, read as the \<^verbatim>\<open>double\<close> \<open>v\<close>;
  \<^item> \<open>Huge\<close> and \<open>NegHuge\<close>: a number beyond the range of \<^verbatim>\<open>double\<close>, positive or negative;
  \<^item> \<open>Garbage\<close>: text that does not begin with a number.
  A word that begins with a number and goes on with other characters is a \<open>Num\<close> followed
  by \<open>Garbage\<close>. \<open>stream_extract\<close> is \<^verbatim>\<open>fid >> x\<close>: once the stream has failed nothing is
  read and \<open>x\<close> keeps its value; at the end of the input the stream fails and \<open>x\<close> keeps
  its value; text that is not a number makes the stream fail and stores zero; a number
  out of range makes the stream fail and stores the largest \<^verbatim>\<open>double\<close>, \<open>DBL_MAX\<close>, with the
  sign of the number.
\<close>

datatype token = Num real | Huge | NegHuge | Garbage

definition DBL_MAX :: real where
  "DBL_MAX = (2 - 1 / 2 ^ 52) * 2 ^ 1023"

record istream =
  pending :: "token list"
  failbit :: bool

record input_file =
  can_open :: bool
  counts :: "nat \<times> nat \<times> nat"
  tokens :: "token list"

definition stream_extract :: "istream \<Rightarrow> real \<Rightarrow> istream \<times> real" where
  "stream_extract fid old =
     (if failbit fid then (fid, old)
      else case pending fid of
             [] \<Rightarrow> (fid\<lparr>failbit := True\<rparr>, old)
           | Num v # rest \<Rightarrow> (fid\<lparr>pending := rest\<rparr>, v)
           | Huge # rest \<Rightarrow> (fid\<lparr>pending := rest, failbit := True\<rparr>, DBL_MAX)
           | NegHuge # rest \<Rightarrow> (fid\<lparr>pending := rest, failbit := True\<rparr>, - DBL_MAX)
           | Garbage # rest \<Rightarrow> (fid\<lparr>failbit := True\<rparr>, 0))"

definition read_entry :: "nat \<Rightarrow> nat \<Rightarrow> istream \<times> mat \<Rightarrow> istream \<times> mat" where
  "read_entry ii jj st =
     (case st of (fid, A) \<Rightarrow>
        (case stream_extract fid (A ! ii ! jj) of (fid', v) \<Rightarrow> (fid', A[ii := (A ! ii)[jj := v]])))"

definition read_matrix :: "nat \<Rightarrow> istream \<times> mat \<Rightarrow> istream \<times> mat" where
  "read_matrix n st = fold (\<lambda>ii. fold (\<lambda>jj. read_entry ii jj) [0..<n]) [0..<n] st"

definition read_mass :: "nat \<Rightarrow> istream \<times> mat \<times> mat list \<Rightarrow> istream \<times> mat \<times> mat list" where
  "read_mass n st =
     (case st of (fid, Mtemp, MM) \<Rightarrow>
        (case read_matrix n (fid, Mtemp) of (fid', Mtemp') \<Rightarrow> (fid', Mtemp', MM @ [Mtemp'])))"

text \<open>
  \<^verbatim>\<open>readFileAndGetStiffMassMatrices(K0, MM)\<close>: \<open>K0\<close> is overwritten, the mass matrices are
  appended to the vector \<open>MM\<close> the caller passes, and the three counts are stored in the
  object. The only failure the function looks for is the failure to open the file.
\<close>

definition readFileAndGetStiffMassMatrices ::
  "solver \<Rightarrow> input_file \<Rightarrow> mat list \<Rightarrow> log_call list \<times> (fatal + solver \<times> mat \<times> mat list)" where
  "readFileAndGetStiffMassMatrices s f MM =
     (if \<not> can_open f
      then ([LOG_ASSERT True ''ERROR: Error in opening the file!''], Inl (Exit 1))
      else
        case counts f of (n, m, p) \<Rightarrow>
          let s' = s\<lparr>m_Dimensions := n, m_NumberOfMassMtx := m, m_NumberOfEigenValues := p\<rparr>;
              fid = \<lparr>pending = tokens f, failbit = False\<rparr>
          in case read_matrix n (fid, zero_mat n n) of (fid1, K0) \<Rightarrow>
             case fold (\<lambda>im. read_mass n) [0..<m] (fid1, zero_mat n n, MM) of (fid2, Mtemp, MM') \<Rightarrow>
               ([LOG_INFO ''Matrix K0 = \<newline> {0}'' [ArgMat K0]], Inr (s', K0, MM')))"

section \<open>Writing the results\<close>

definition rfind :: "char \<Rightarrow> string \<Rightarrow> nat option" where
  "rfind c s = (case filter (\<lambda>i. s ! i = c) (rev [0..<length s]) of [] \<Rightarrow> None | i # _ \<Rightarrow> Some i)"

text \<open>
  \<^verbatim>\<open>printResults(Omega, Phi)\<close> writes \<^verbatim>\<open>Phi.dat\<close> and \<^verbatim>\<open>Omega.dat\<close> beside the input file.
  Whether an output stream opens is a property of the file system, the argument
  \<open>opens\<close>. The formatting of the numbers is not modelled: a \<open>Write\<close> carries the data.
\<close>

definition printResults ::
  "solver \<Rightarrow> (string \<Rightarrow> bool) \<Rightarrow> vec \<Rightarrow> mat \<Rightarrow> effect list \<times> (fatal + unit)" where
  "printResults s opens Omega Phi =
     (let directory = (case rfind CHR ''/'' (m_FilePath s) of
                         Some last_slash_idx \<Rightarrow> take last_slash_idx (m_FilePath s)
                       | None \<Rightarrow> []);
          resultFile1 = directory @ ''/Phi.dat'';
          resultFile2 = directory @ ''/Omega.dat'';
          opened = (if opens resultFile1 then [Create resultFile1] else []) @
                   (if opens resultFile2 then [Create resultFile2] else [])
      in if \<not> opens resultFile1 \<or> \<not> opens resultFile2
         then (opened @ [Log (LOG_ASSERT False ''ERROR: Error in opening the file!'')], Inl (Exit 1))
         else (opened @
               [Write resultFile1 (PhiData (m_Dimensions s) (m_NumberOfEigenValues s) Phi),
                Write resultFile2 (OmegaData (m_NumberOfEigenValues s) Omega)], Inr ()))"

section \<open>The inner linear solve\<close>

text \<open>
  \<^verbatim>\<open>Eigen::ConjugateGradient\<close> is a library class. Its use here,
  \<^verbatim>\<open>compute(A)\<close>, \<^verbatim>\<open>solve(b)\<close>, \<^verbatim>\<open>error()\<close>, is a function of the matrix and the
  right-hand side that gives the solution and the error estimate; it is a parameter.
\<close>

type_synonym cg_solver = "mat \<Rightarrow> vec \<Rightarrow> vec \<times> real"

definition iterativeLinearSolver ::
  "cg_solver \<Rightarrow> mat \<Rightarrow> vec \<Rightarrow> vec \<times> bool \<times> log_call list" where
  "iterativeLinearSolver linsolver A b =
     (case linsolver A b of (x, err) \<Rightarrow>
        let status = True
        in if err < 1 / 10 ^ 12
           then (x, False,
                 [LOG_ASSERT False ''The iterative linear solver has reach the max. iterations with error below of the tolerance!''])
           else (x, status, []))"

text \<open>
  The three arguments are passed by reference. To say which objects a call changes, the
  objects live in a store, matrices and vectors each under their addresses, and the call
  takes the addresses of \<open>A\<close>, \<open>b\<close> and \<open>x\<close>.
\<close>

record store =
  mats :: "nat \<Rightarrow> mat"
  vecs :: "nat \<Rightarrow> vec"

definition iterativeLinearSolver_ref ::
  "cg_solver \<Rightarrow> nat \<Rightarrow> nat \<Rightarrow> nat \<Rightarrow> store \<Rightarrow> store \<times> bool \<times> log_call list" where
  "iterativeLinearSolver_ref linsolver A b x h =
     (case iterativeLinearSolver linsolver (mats h A) (vecs h b) of
        (sol, status, logs) \<Rightarrow> (h\<lparr>vecs := (vecs h)(x := sol)\<rparr>, status, logs))"

section \<open>Orthogonalisation of the deflation basis\<close>

text \<open>
  Lines 63 to 80 of \<^verbatim>\<open>execute\<close>, for the eigenvalue index \<open>ie\<close>. A division by a zero norm
  gives an infinity or a NaN in the program, which no real number stands for: the model
  reports it as \<open>NonFinite\<close>.
\<close>

datatype num_error = NonFinite

fun for_each :: "(nat \<Rightarrow> 'a \<Rightarrow> num_error + 'a) \<Rightarrow> nat list \<Rightarrow> 'a \<Rightarrow> num_error + 'a" where
  "for_each f [] a = Inr a"
| "for_each f (i # rest) a = (case f i a of Inl e \<Rightarrow> Inl e | Inr a' \<Rightarrow> for_each f rest a')"

definition orth_store :: "nat \<Rightarrow> nat \<Rightarrow> mat list \<Rightarrow> vec \<Rightarrow> mat \<Rightarrow> nat \<Rightarrow> nat \<Rightarrow> mat \<Rightarrow> mat" where
  "orth_store n m MM Omega Phi ie is B_r =
     (let Mlrls = getGeneralizedFreqDependentMassMtx n m MM (Omega ! ie) (Omega ! is)
      in set_col B_r ie (mat_vec Mlrls (col Phi is)))"

definition orth_project :: "nat \<Rightarrow> mat \<Rightarrow> mat" where
  "orth_project is B_r =
     (if is > 0
      then fold (\<lambda>el B_r.
             set_col B_r is
               (vec_add (col B_r is)
                  (vec_scale (dot (col B_r el) (col B_r is)) (map uminus (col B_r el)))))
             [0..<is] B_r
      else B_r)"

definition orth_normalize :: "nat \<Rightarrow> mat \<Rightarrow> num_error + mat" where
  "orth_normalize is B_r =
     (let d = dot (col B_r is) (col B_r is)
      in if d = 0 then Inl NonFinite
         else Inr (set_col B_r is (vec_scale (1 / sqrt d) (col B_r is))))"

definition orthogonalize_basis ::
  "nat \<Rightarrow> nat \<Rightarrow> mat list \<Rightarrow> vec \<Rightarrow> mat \<Rightarrow> nat \<Rightarrow> mat \<Rightarrow> num_error + mat" where
  "orthogonalize_basis n m MM Omega Phi ie B_r =
     for_each (\<lambda>is B_r. orth_normalize is (orth_project is (orth_store n m MM Omega Phi ie is B_r)))
       [0..<ie] B_r"

section \<open>The eigenvalue loop\<close>

text \<open>
  \<^verbatim>\<open>execute\<close> reads the file, sets up its work space and runs, for each eigenvalue index,
  the inner \<^verbatim>\<open>while\<close> loop. The control flow of the two loops is modelled as written,
  with the variables that steer it: the counter \<open>iterK\<close> and the convergence measure
  \<open>conv\<close>. \<open>conv\<close> is a \<^verbatim>\<open>double\<close> that the loop body computes by a division; it may be
  an infinity or a NaN, so its values are those of \<open>dbl\<close>, and \<open>abs_exceeds conv tol\<close> is
  the loop test \<^verbatim>\<open>abs(conv) > m_TOL\<close> of line 60 (\<^verbatim>\<open>abs\<close> the absolute value of a
  \<^verbatim>\<open>double\<close>): true of both infinities, false of a NaN.
\<close>

datatype dbl = Finite real | PosInf | NegInf | NaN

fun abs_exceeds :: "dbl \<Rightarrow> real \<Rightarrow> bool" where
  "abs_exceeds (Finite x) tol = (\<bar>x\<bar> > tol)"
| "abs_exceeds PosInf tol = True"
| "abs_exceeds NegInf tol = True"
| "abs_exceeds NaN tol = False"

text \<open>
  The numerical work the loops drive is floating-point arithmetic on the work space
  (\<open>Omega\<close>, \<open>Phi\<close>, \<open>B_r\<close> and the scratch matrices). It enters as a \<open>kernel\<close> over a work
  space of any type \<open>'w\<close>:
  \<^item> \<open>initialise\<close>: lines 29 to 40, the zero-initialised work space;
  \<^item> \<open>start_index\<close>: lines 55 to 58, the seed of \<open>Omega(ie)\<close>;
  \<^item> \<open>iteration\<close>: lines 62 to 131, one correction step: the new work space, the new
    value of \<open>conv\<close> (line 126) and the messages logged.
  What is proved of the loops holds for every kernel.
\<close>

record 'w kernel =
  initialise :: "solver \<Rightarrow> mat \<Rightarrow> mat list \<Rightarrow> 'w"
  start_index :: "nat \<Rightarrow> 'w \<Rightarrow> 'w"
  iteration :: "solver \<Rightarrow> nat \<Rightarrow> int \<Rightarrow> 'w \<Rightarrow> 'w \<times> dbl \<times> log_call list"

text \<open>
  The \<^verbatim>\<open>while\<close> loop of lines 60 to 142, from the counter \<open>iterK\<close>, the work space \<open>w\<close>
  and the value \<open>conv\<close>: test, body, increment, cap.
\<close>

function inner_while ::
  "'w kernel \<Rightarrow> solver \<Rightarrow> nat \<Rightarrow> int \<Rightarrow> 'w \<Rightarrow> dbl \<Rightarrow> 'w \<times> dbl \<times> int \<times> log_call list" where
  "inner_while k s ie iterK w conv =
     (if abs_exceeds conv (m_TOL s)
      then case iteration k s ie iterK w of (w', conv', logs) \<Rightarrow>
             if iterK + 1 > m_MaxIter s
             then (w', conv', iterK + 1,
                   logs @ [LOG_ERROR ''Error: It has reached the max. number of iterations!!''])
             else case inner_while k s ie (iterK + 1) w' conv' of
                    (w'', conv'', iterK'', logs') \<Rightarrow> (w'', conv'', iterK'', logs @ logs')
      else (w, conv, iterK, []))"
  by pat_completeness auto
termination
  by (relation "measure (\<lambda>(k, s, ie, iterK, w, conv). nat (m_MaxIter s + 1 - iterK))") auto

text \<open>
  One eigenvalue index: lines 48 to 142, with \<open>conv = 1.0\<close> and \<open>iterK = 0\<close> at the start.
  Besides the work space and the messages, the final value of \<open>iterK\<close> is kept for each
  index.
\<close>

definition eigen_index ::
  "'w kernel \<Rightarrow> solver \<Rightarrow> nat \<Rightarrow> 'w \<times> int list \<times> log_call list \<Rightarrow> 'w \<times> int list \<times> log_call list" where
  "eigen_index k s ie st =
     (case st of (w, iters, logs) \<Rightarrow>
        (case inner_while k s ie 0 (start_index k ie w) (Finite 1) of
           (w', conv', iterK, logs') \<Rightarrow>
             (w', iters @ [iterK], logs @ LOG_INFO ''Eigenvalue #{0}:'' [ArgInt (int ie)] # logs')))"

definition execute ::
  "'w kernel \<Rightarrow> solver \<Rightarrow> input_file \<Rightarrow> effect list \<times> (fatal + 'w \<times> int list)" where
  "execute k s f =
     (case readFileAndGetStiffMassMatrices s f [] of
        (rlogs, Inl e) \<Rightarrow> (map Log (LOG_INFO ''Reading filedata...\<newline>'' [] # rlogs), Inl e)
      | (rlogs, Inr (s', K0, MM)) \<Rightarrow>
          (case fold (eigen_index k s') [0..<m_NumberOfEigenValues s']
                  (initialise k s' K0 MM, [], []) of
             (w, iters, logs) \<Rightarrow>
               (map Log (LOG_INFO ''Reading filedata...\<newline>'' [] # rlogs @
                         LOG_INFO ''Initialize the matrices...\<newline>'' [] #
                         LOG_INFO ''Processing...'' [] # logs),
                Inr (w, iters))))"

text \<open>
  The loop described pass by pass. \<open>body_runs c\<close> is the work space and the value of
  \<open>conv\<close> after \<open>c\<close> executions of the loop body, and \<open>body_logs c\<close> the messages of these
  executions, the counter starting at \<open>iterK\<close>.
\<close>

fun body_runs :: "'w kernel \<Rightarrow> solver \<Rightarrow> nat \<Rightarrow> nat \<Rightarrow> int \<Rightarrow> 'w \<times> dbl \<Rightarrow> 'w \<times> dbl" where
  "body_runs k s ie 0 iterK st = st"
| "body_runs k s ie (Suc c) iterK st =
     (case iteration k s ie iterK (fst st) of
        (w', conv', logs) \<Rightarrow> body_runs k s ie c (iterK + 1) (w', conv'))"

fun body_logs :: "'w kernel \<Rightarrow> solver \<Rightarrow> nat \<Rightarrow> nat \<Rightarrow> int \<Rightarrow> 'w \<Rightarrow> log_call list" where
  "body_logs k s ie 0 iterK w = []"
| "body_logs k s ie (Suc c) iterK w =
     (case iteration k s ie iterK w of
        (w', conv', logs) \<Rightarrow> logs @ body_logs k s ie c (iterK + 1) w')"

text \<open>
  The run described index by index. \<open>index_state ie\<close> is the work space in which the
  eigenvalue index \<open>ie\<close> begins: the initial one, or the one the loop of the index before
  left. \<open>index_iterK ie\<close> and \<open>index_logs ie\<close> are the final counter and the messages of
  the index \<open>ie\<close>.
\<close>

fun index_state :: "'w kernel \<Rightarrow> solver \<Rightarrow> mat \<Rightarrow> mat list \<Rightarrow> nat \<Rightarrow> 'w" where
  "index_state k s K0 MM 0 = initialise k s K0 MM"
| "index_state k s K0 MM (Suc ie) =
     fst (inner_while k s ie 0 (start_index k ie (index_state k s K0 MM ie)) (Finite 1))"

definition index_iterK :: "'w kernel \<Rightarrow> solver \<Rightarrow> mat \<Rightarrow> mat list \<Rightarrow> nat \<Rightarrow> int" where
  "index_iterK k s K0 MM ie =
     fst (snd (snd (inner_while k s ie 0 (start_index k ie (index_state k s K0 MM ie)) (Finite 1))))"

definition index_logs :: "'w kernel \<Rightarrow> solver \<Rightarrow> mat \<Rightarrow> mat list \<Rightarrow> nat \<Rightarrow> log_call list" where
  "index_logs k s K0 MM ie =
     LOG_INFO ''Eigenvalue #{0}:'' [ArgInt (int ie)] #
     snd (snd (snd (inner_while k s ie 0 (start_index k ie (index_state k s K0 MM ie)) (Finite 1))))"

text \<open>
  A small kernel to run the loops on: the work space is the value of \<open>conv\<close> alone, which
  an iteration divides by \<open>10 ^ 7\<close> for the first eigenvalue and halves for the others.
\<close>

definition two_speed_kernel :: "real kernel" where
  "two_speed_kernel =
     \<lparr>initialise = (\<lambda>s K0 MM. 1), start_index = (\<lambda>ie w. 1),
      iteration = (\<lambda>s ie iterK w.
         if ie = 0 then (w / 10 ^ 7, Finite (w / 10 ^ 7), [])
         else (w / 2, Finite (w / 2), []))\<rparr>"

text \<open>
  An iteration count within the cap: \<open>iterK\<close> counts the executions of the loop body.
\<close>

definition iter_bound :: "solver \<Rightarrow> int \<Rightarrow> bool" where
  "iter_bound s iterK = (0 \<le> iterK \<and> iterK \<le> m_MaxIter s + 1)"

section \<open>Sizes and coefficients of the matrix operations\<close>

lemma mat_ok_rows: "mat_ok r c A \<Longrightarrow> i < r \<Longrightarrow> length (A ! i) = c"
  by (simp add: mat_ok_def list_all_length)

lemma mat_ok_sub: "mat_ok r c A \<Longrightarrow> mat_ok r c B \<Longrightarrow> mat_ok r c (mat_sub A B)"
  by (simp add: mat_ok_def mat_sub_def vec_sub_def list_all_length)

lemma mat_ok_entries: "mat_ok r c (mat_of_entries r c f)"
  by (simp add: mat_ok_def mat_of_entries_def list_all_length)

lemma entry_sub:
  "mat_ok r c A \<Longrightarrow> mat_ok r c B \<Longrightarrow> i < r \<Longrightarrow> j < c \<Longrightarrow>
     mat_sub A B ! i ! j = A ! i ! j - B ! i ! j"
  by (simp add: mat_ok_def mat_sub_def vec_sub_def list_all_length)

lemma entry_of_entries: "i < r \<Longrightarrow> j < c \<Longrightarrow> mat_of_entries r c f ! i ! j = f i j"
  by (simp add: mat_of_entries_def)

lemma mat_eqI:
  assumes "mat_ok r c A" and "mat_ok r c B"
    and "\<And>i j. i < r \<Longrightarrow> j < c \<Longrightarrow> A ! i ! j = B ! i ! j"
  shows "A = B"
proof (rule nth_equalityI)
  show "length A = length B"
    using assms(1,2) by (simp add: mat_ok_def)
next
  fix i assume "i < length A"
  then have i: "i < r" using assms(1) by (simp add: mat_ok_def)
  show "A ! i = B ! i"
  proof (rule nth_equalityI)
    show "length (A ! i) = length (B ! i)"
      using i assms(1,2) by (simp add: mat_ok_rows)
  next
    fix j assume "j < length (A ! i)"
    then have "j < c" using i assms(1) by (simp add: mat_ok_rows)
    then show "A ! i ! j = B ! i ! j" using i assms(3) by simp
  qed
qed

lemma mat_ok_nth: "list_all (mat_ok r c) MM \<Longrightarrow> j < length MM \<Longrightarrow> mat_ok r c (MM ! j)"
  by (simp add: list_all_length)

lemma mat_ok_zero: "mat_ok r c (zero_mat r c)"
  by (simp add: mat_ok_def zero_mat_def list_all_length)

lemma mat_ok_update: "mat_ok r c A \<Longrightarrow> mat_ok r c (A[ii := (A ! ii)[jj := v]])"
  by (cases "ii < length A") (auto simp: mat_ok_def list_all_length nth_list_update)

lemma fold_invariant:
  assumes "P st" and "\<And>x st. P st \<Longrightarrow> P (f x st)"
  shows "P (fold f xs st)"
  using assms(1) by (induction xs arbitrary: st) (simp_all add: assms(2))

section \<open>The stiffness polynomials\<close>

lemma mat_ok_cwise: "mat_ok r c A \<Longrightarrow> mat_ok r c (cwise f A)"
  by (simp add: mat_ok_def cwise_def list_all_length)

lemma mat_ok_cwise2: "mat_ok r c A \<Longrightarrow> mat_ok r c B \<Longrightarrow> mat_ok r c (cwise2 f A B)"
  by (simp add: mat_ok_def cwise2_def list_all_length)

lemma entry_cwise: "mat_ok r c A \<Longrightarrow> i < r \<Longrightarrow> j < c \<Longrightarrow> cwise f A ! i ! j = f (A ! i ! j)"
  by (simp add: mat_ok_def cwise_def list_all_length)

lemma entry_cwise2:
  "mat_ok r c A \<Longrightarrow> mat_ok r c B \<Longrightarrow> i < r \<Longrightarrow> j < c \<Longrightarrow>
     cwise2 f A B ! i ! j = f (A ! i ! j) (B ! i ! j)"
  by (simp add: mat_ok_def cwise2_def list_all_length)

lemma effective_entries:
  assumes K0: "mat_ok n n K0" and MM: "list_all (mat_ok n n) MM" and m: "m \<le> length MM"
  shows "mat_ok n n (getEffectiveStiffMtx ar m K0 MM omega) \<and>
         (\<forall>i<n. \<forall>j<n. getEffectiveStiffMtx ar m K0 MM omega ! i ! j =
             fold (\<lambda>k acc. d_sub ar acc (d_mul ar (d_pow ar omega (k + 1)) (MM ! k ! i ! j)))
               [0..<m] (K0 ! i ! j))"
  using m
proof (induction m)
  case 0
  show ?case using K0 by (simp add: getEffectiveStiffMtx_def)
next
  case (Suc m)
  let ?Kp = "getEffectiveStiffMtx ar m K0 MM omega"
  let ?T = "cwise (d_mul ar (d_pow ar omega (m + 1))) (MM ! m)"
  have step: "getEffectiveStiffMtx ar (Suc m) K0 MM omega = cwise2 (d_sub ar) ?Kp ?T"
    by (simp add: getEffectiveStiffMtx_def)
  have okM: "mat_ok n n (MM ! m)" using Suc.prems MM by (simp add: mat_ok_nth)
  have okT: "mat_ok n n ?T" using okM by (rule mat_ok_cwise)
  have IH: "mat_ok n n ?Kp"
    "\<forall>i<n. \<forall>j<n. ?Kp ! i ! j =
        fold (\<lambda>k acc. d_sub ar acc (d_mul ar (d_pow ar omega (k + 1)) (MM ! k ! i ! j)))
          [0..<m] (K0 ! i ! j)"
    using Suc by simp_all
  show ?case
    unfolding step using IH okM okT
    by (simp add: mat_ok_cwise2 entry_cwise2 entry_cwise)
qed

lemma freq_dependent_entries:
  assumes K0: "mat_ok n n K0" and MM: "list_all (mat_ok n n) MM" and m: "Suc m \<le> length MM"
  shows "mat_ok n n (getFreqDependentStiffMtx ar (Suc m) K0 MM omega) \<and>
         (\<forall>i<n. \<forall>j<n. getFreqDependentStiffMtx ar (Suc m) K0 MM omega ! i ! j =
             fold (\<lambda>k acc. d_add ar acc
                     (d_mul ar (d_mul ar (d_of_int ar (int k)) (d_pow ar omega (k + 1)))
                        (MM ! k ! i ! j)))
               [1..<Suc m] (K0 ! i ! j))"
  using m
proof (induction m)
  case 0
  show ?case using K0 by (simp add: getFreqDependentStiffMtx_def)
next
  case (Suc m)
  let ?Kp = "getFreqDependentStiffMtx ar (Suc m) K0 MM omega"
  let ?T = "cwise (d_mul ar (d_mul ar (d_of_int ar (int (Suc m))) (d_pow ar omega (Suc m + 1))))
              (MM ! Suc m)"
  have step: "getFreqDependentStiffMtx ar (Suc (Suc m)) K0 MM omega = cwise2 (d_add ar) ?Kp ?T"
    by (simp add: getFreqDependentStiffMtx_def)
  have okM: "mat_ok n n (MM ! Suc m)" using Suc.prems MM by (simp add: mat_ok_nth)
  have okT: "mat_ok n n ?T" using okM by (rule mat_ok_cwise)
  have IH: "mat_ok n n ?Kp"
    "\<forall>i<n. \<forall>j<n. ?Kp ! i ! j =
        fold (\<lambda>k acc. d_add ar acc
                (d_mul ar (d_mul ar (d_of_int ar (int k)) (d_pow ar omega (k + 1)))
                   (MM ! k ! i ! j)))
          [1..<Suc m] (K0 ! i ! j)"
    using Suc by simp_all
  have up: "[1..<Suc (Suc m)] = [1..<Suc m] @ [Suc m]" by simp
  show ?case
    unfolding step up fold_append using IH okM okT
    by (simp add: mat_ok_cwise2 entry_cwise2 entry_cwise del: upt_Suc)
qed

lemma exact_fold_sub:
  "fold (\<lambda>k acc. d_sub exact_arith acc (d_mul exact_arith (d_pow exact_arith w (k + 1)) (g k)))
     [0..<m] a = a - (\<Sum>k<m. w ^ (k + 1) * g k)"
  by (induction m) (simp_all add: exact_arith_def)

lemma exact_fold_add:
  "fold (\<lambda>k acc. d_add exact_arith acc
           (d_mul exact_arith (d_mul exact_arith (d_of_int exact_arith (int k))
              (d_pow exact_arith w (k + 1))) (g k)))
     [1..<Suc m] a = a + (\<Sum>k=1..<Suc m. real k * w ^ (k + 1) * g k)"
proof (induction m)
  case 0
  show ?case by simp
next
  case (Suc m)
  have up: "[1..<Suc (Suc m)] = [1..<Suc m] @ [Suc m]" by simp
  show ?case unfolding up fold_append using Suc
    by (simp add: exact_arith_def del: upt_Suc)
qed

lemma sum_from_one: "(\<Sum>k=1..<m. real k * f k) = (\<Sum>k<m. real k * f k)"
proof (cases m)
  case 0
  then show ?thesis by simp
next
  case (Suc m')
  have "(\<Sum>k<Suc m'. real k * f k) = (\<Sum>k=0..<Suc m'. real k * f k)"
    by (simp add: lessThan_atLeast0)
  also have "\<dots> = real 0 * f 0 + (\<Sum>k=Suc 0..<Suc m'. real k * f k)"
    by (rule sum.atLeast_Suc_lessThan) simp
  finally show ?thesis using Suc by simp
qed

lemma weighted_terms:
  "(\<Sum>k=1..<m. real k * w ^ (k + 1) * g k) + (\<Sum>k<m. w ^ (k + 1) * g k)
     = (\<Sum>k<m. (real k + 1) * w ^ (k + 1) * g k)"
proof -
  have "(\<Sum>k=1..<m. real k * w ^ (k + 1) * g k) = (\<Sum>k=1..<m. real k * (w ^ (k + 1) * g k))"
    by (simp add: mult.assoc)
  also have "\<dots> = (\<Sum>k<m. real k * (w ^ (k + 1) * g k))"
    by (rule sum_from_one)
  finally show ?thesis
    by (simp add: sum.distrib [symmetric] algebra_simps)
qed

lemma exact_effective:
  assumes "mat_ok n n Kr" and "list_all (mat_ok n n) Mr" and "length Mr = m"
  shows "mat_ok n n (getEffectiveStiffMtx exact_arith m Kr Mr w) \<and>
         (\<forall>i<n. \<forall>j<n. getEffectiveStiffMtx exact_arith m Kr Mr w ! i ! j =
            Kr ! i ! j - (\<Sum>k<m. w ^ (k + 1) * Mr ! k ! i ! j))"
proof -
  have "m \<le> length Mr" using assms(3) by simp
  from effective_entries[OF assms(1,2) this, of exact_arith w]
  show ?thesis unfolding exact_fold_sub .
qed

lemma exact_freq_dependent:
  assumes "mat_ok n n Kr" and "list_all (mat_ok n n) Mr" and "length Mr = m" and "1 \<le> m"
  shows "mat_ok n n (getFreqDependentStiffMtx exact_arith m Kr Mr w) \<and>
         (\<forall>i<n. \<forall>j<n. getFreqDependentStiffMtx exact_arith m Kr Mr w ! i ! j =
            Kr ! i ! j + (\<Sum>k=1..<m. real k * w ^ (k + 1) * Mr ! k ! i ! j))"
proof -
  obtain m' where m': "m = Suc m'" using assms(4) by (cases m) simp_all
  have "Suc m' \<le> length Mr" using assms(3) m' by simp
  from freq_dependent_entries[OF assms(1,2) this, of exact_arith w]
  show ?thesis unfolding exact_fold_add m' .
qed


text \<open>
  Claim C5. For a base stiffness matrix \<open>K0\<close> and a list \<open>MM\<close> of \<open>m\<close> mass matrices, all
  \<open>n \<times> n\<close>, and every frequency \<open>omega\<close>, \<open>getEffectiveStiffMtx\<close> computes the matrix
  whose coefficient \<open>(i, j)\<close> is \<open>K0(i, j)\<close> from which the terms
  \<open>omega ^ (k + 1) * MM[k](i, j)\<close> are subtracted for \<open>k = 0, \<dots>, m - 1\<close> in this order,
  every operation being the one of the program's arithmetic, whatever it computes. In
  the arithmetic of the real numbers this is \<open>K0(i, j)\<close> minus the sum over
  \<open>k = 0, \<dots>, m - 1\<close> of \<open>omega ^ (k + 1) * MM[k](i, j)\<close>.
\<close>

theorem getEffectiveStiffMtx_formula:
  assumes "mat_ok n n K0" and "list_all (mat_ok n n) MM" and "length MM = m"
    and "mat_ok n n Kr" and "list_all (mat_ok n n) Mr" and "length Mr = m"
  shows "getEffectiveStiffMtx ar m K0 MM omega =
           mat_of_entries n n
             (\<lambda>i j. fold (\<lambda>k acc. d_sub ar acc (d_mul ar (d_pow ar omega (k + 1)) (MM ! k ! i ! j)))
                      [0..<m] (K0 ! i ! j)) \<and>
         getEffectiveStiffMtx exact_arith m Kr Mr w =
           mat_of_entries n n (\<lambda>i j. Kr ! i ! j - (\<Sum>k<m. w ^ (k + 1) * Mr ! k ! i ! j))"
proof
  have e: "mat_ok n n (getEffectiveStiffMtx ar m K0 MM omega)"
    "\<forall>i<n. \<forall>j<n. getEffectiveStiffMtx ar m K0 MM omega ! i ! j =
        fold (\<lambda>k acc. d_sub ar acc (d_mul ar (d_pow ar omega (k + 1)) (MM ! k ! i ! j)))
          [0..<m] (K0 ! i ! j)"
    using effective_entries[of n K0 MM m ar omega] assms(1-3) by simp_all
  show "getEffectiveStiffMtx ar m K0 MM omega =
           mat_of_entries n n
             (\<lambda>i j. fold (\<lambda>k acc. d_sub ar acc (d_mul ar (d_pow ar omega (k + 1)) (MM ! k ! i ! j)))
                      [0..<m] (K0 ! i ! j))"
    by (rule mat_eqI[OF e(1) mat_ok_entries]) (simp add: e(2) entry_of_entries)
next
  have x: "mat_ok n n (getEffectiveStiffMtx exact_arith m Kr Mr w)"
    "\<forall>i<n. \<forall>j<n. getEffectiveStiffMtx exact_arith m Kr Mr w ! i ! j =
            Kr ! i ! j - (\<Sum>k<m. w ^ (k + 1) * Mr ! k ! i ! j)"
    using exact_effective[OF assms(4-6), of w] by simp_all
  show "getEffectiveStiffMtx exact_arith m Kr Mr w =
           mat_of_entries n n (\<lambda>i j. Kr ! i ! j - (\<Sum>k<m. w ^ (k + 1) * Mr ! k ! i ! j))"
    by (rule mat_eqI[OF x(1) mat_ok_entries]) (simp add: x(2) entry_of_entries)
qed


theorem getEffectiveStiffMtx_formula_witness:
  "mat_ok 2 2 [[7, 1], [1, 9 :: real]] \<and>
   list_all (mat_ok 2 2) [[[1, 0], [0, 1]], [[2, 1], [1, 2 :: real]]] \<and>
   length [[[1, 0], [0, 1]], [[2, 1], [1, 2 :: real]]] = 2 \<and>
   getEffectiveStiffMtx exact_arith 2 [[7, 1], [1, 9]] [[[1, 0], [0, 1]], [[2, 1], [1, 2]]] 2 =
     mat_of_entries 2 2 (\<lambda>i j. [[7, 1], [1, 9]] ! i ! j -
        (\<Sum>k<2. 2 ^ (k + 1) * [[[1, 0], [0, 1]], [[2, 1], [1, 2]]] ! k ! i ! j)) \<and>
   getEffectiveStiffMtx exact_arith 2 [[7, 1], [1, 9]] [[[1, 0], [0, 1]], [[2, 1], [1, 2]]] 2 =
     [[- 3, - 3], [- 3, - 1]]"
proof -
  have h: "mat_ok 2 2 [[7, 1], [1, 9 :: real]]"
    "list_all (mat_ok 2 2) [[[1, 0], [0, 1]], [[2, 1], [1, 2 :: real]]]"
    "length [[[1, 0], [0, 1]], [[2, 1], [1, 2 :: real]]] = 2"
    by (simp_all add: mat_ok_def)
  have v: "getEffectiveStiffMtx exact_arith 2 [[7, 1], [1, 9]] [[[1, 0], [0, 1]], [[2, 1], [1, 2]]] 2 =
     [[- 3, - 3], [- 3, - 1]]"
    by (simp add: getEffectiveStiffMtx_def exact_arith_def cwise_def cwise2_def upt_rec)
  have f: "getEffectiveStiffMtx exact_arith 2 [[7, 1], [1, 9]] [[[1, 0], [0, 1]], [[2, 1], [1, 2]]] 2 =
     mat_of_entries 2 2 (\<lambda>i j. [[7, 1], [1, 9]] ! i ! j -
        (\<Sum>k<2. 2 ^ (k + 1) * [[[1, 0], [0, 1]], [[2, 1], [1, 2]]] ! k ! i ! j))"
    using getEffectiveStiffMtx_formula[OF h h, THEN conjunct2, of 2] .
  show ?thesis
    by (rule conjI[OF h(1) conjI[OF h(2) conjI[OF h(3) conjI[OF f v]]]])
qed

text \<open>
  Claim C6, as the code has it. For \<open>K0\<close> and a list \<open>MM\<close> of \<open>m \<ge> 1\<close> mass matrices,
  all \<open>n \<times> n\<close>, and every \<open>omega\<close>, \<open>getFreqDependentStiffMtx\<close> computes the matrix whose
  coefficient \<open>(i, j)\<close> is \<open>K0(i, j)\<close> to which the terms
  \<open>k * omega ^ (k + 1) * MM[k](i, j)\<close> are added for \<open>k = 1, \<dots>, m - 1\<close> in this order, in
  the program's arithmetic; for \<open>m = 1\<close> it is \<open>K0\<close>. In the arithmetic of the real numbers
  this is \<open>K0\<close> plus the sum over \<open>k = 1, \<dots>, m - 1\<close> of \<open>k * omega ^ (k + 1) * MM[k]\<close>, and
  it exceeds the effective stiffness by the sum over \<open>k = 0, \<dots>, m - 1\<close> of
  \<open>(k + 1) * omega ^ (k + 1) * MM[k]\<close>: the two operations differ where this sum is not
  zero, as for \<open>K0 = M[0] = (1)\<close> and \<open>omega = 1\<close>, and not on all inputs.
\<close>

theorem getFreqDependentStiffMtx_formula:
  assumes "mat_ok n n K0" and "list_all (mat_ok n n) MM" and "length MM = m"
    and "mat_ok n n Kr" and "list_all (mat_ok n n) Mr" and "length Mr = m" and "1 \<le> m"
  shows "getFreqDependentStiffMtx ar m K0 MM omega =
           mat_of_entries n n
             (\<lambda>i j. fold (\<lambda>k acc. d_add ar acc
                              (d_mul ar (d_mul ar (d_of_int ar (int k)) (d_pow ar omega (k + 1)))
                                 (MM ! k ! i ! j)))
                      [1..<m] (K0 ! i ! j)) \<and>
         (m = 1 \<longrightarrow> getFreqDependentStiffMtx ar m K0 MM omega = K0) \<and>
         getFreqDependentStiffMtx exact_arith m Kr Mr w =
           mat_of_entries n n
             (\<lambda>i j. Kr ! i ! j + (\<Sum>k=1..<m. real k * w ^ (k + 1) * Mr ! k ! i ! j)) \<and>
         mat_sub (getFreqDependentStiffMtx exact_arith m Kr Mr w)
                 (getEffectiveStiffMtx exact_arith m Kr Mr w) =
           mat_of_entries n n (\<lambda>i j. \<Sum>k<m. (real k + 1) * w ^ (k + 1) * Mr ! k ! i ! j) \<and>
         getFreqDependentStiffMtx exact_arith 1 [[1]] [[[1]]] 1 = [[1]] \<and>
         getEffectiveStiffMtx exact_arith 1 [[1]] [[[1]]] 1 = [[0]]"
proof -
  obtain m' where m': "m = Suc m'" using assms(7) by (cases m) simp_all
  have le: "Suc m' \<le> length MM" using assms(3) m' by simp
  have g: "mat_ok n n (getFreqDependentStiffMtx ar m K0 MM omega)"
    "\<forall>i<n. \<forall>j<n. getFreqDependentStiffMtx ar m K0 MM omega ! i ! j =
        fold (\<lambda>k acc. d_add ar acc
                (d_mul ar (d_mul ar (d_of_int ar (int k)) (d_pow ar omega (k + 1)))
                   (MM ! k ! i ! j)))
          [1..<m] (K0 ! i ! j)"
    using freq_dependent_entries[OF assms(1,2) le, of ar omega] unfolding m' by blast+
  have a: "getFreqDependentStiffMtx ar m K0 MM omega =
           mat_of_entries n n
             (\<lambda>i j. fold (\<lambda>k acc. d_add ar acc
                              (d_mul ar (d_mul ar (d_of_int ar (int k)) (d_pow ar omega (k + 1)))
                                 (MM ! k ! i ! j)))
                      [1..<m] (K0 ! i ! j))"
    by (rule mat_eqI[OF g(1) mat_ok_entries]) (simp add: g(2) entry_of_entries)
  have b: "m = 1 \<longrightarrow> getFreqDependentStiffMtx ar m K0 MM omega = K0"
    by (simp add: getFreqDependentStiffMtx_def)
  have kn: "mat_ok n n (getFreqDependentStiffMtx exact_arith m Kr Mr w)"
    "\<forall>i<n. \<forall>j<n. getFreqDependentStiffMtx exact_arith m Kr Mr w ! i ! j =
        Kr ! i ! j + (\<Sum>k=1..<m. real k * w ^ (k + 1) * Mr ! k ! i ! j)"
    using exact_freq_dependent[OF assms(4-7), of w] by blast+
  have keff: "mat_ok n n (getEffectiveStiffMtx exact_arith m Kr Mr w)"
    "\<forall>i<n. \<forall>j<n. getEffectiveStiffMtx exact_arith m Kr Mr w ! i ! j =
        Kr ! i ! j - (\<Sum>k<m. w ^ (k + 1) * Mr ! k ! i ! j)"
    using exact_effective[OF assms(4-6), of w] by blast+
  have c: "getFreqDependentStiffMtx exact_arith m Kr Mr w =
           mat_of_entries n n
             (\<lambda>i j. Kr ! i ! j + (\<Sum>k=1..<m. real k * w ^ (k + 1) * Mr ! k ! i ! j))"
    by (rule mat_eqI[OF kn(1) mat_ok_entries]) (simp add: kn(2) entry_of_entries)
  have d: "mat_sub (getFreqDependentStiffMtx exact_arith m Kr Mr w)
                 (getEffectiveStiffMtx exact_arith m Kr Mr w) =
           mat_of_entries n n (\<lambda>i j. \<Sum>k<m. (real k + 1) * w ^ (k + 1) * Mr ! k ! i ! j)"
  proof (rule mat_eqI[OF mat_ok_sub[OF kn(1) keff(1)] mat_ok_entries])
    fix i j assume ij: "i < n" "j < n"
    have "mat_sub (getFreqDependentStiffMtx exact_arith m Kr Mr w)
                 (getEffectiveStiffMtx exact_arith m Kr Mr w) ! i ! j =
            (\<Sum>k=1..<m. real k * w ^ (k + 1) * Mr ! k ! i ! j) +
            (\<Sum>k<m. w ^ (k + 1) * Mr ! k ! i ! j)"
      using ij kn keff by (simp add: entry_sub)
    also have "\<dots> = (\<Sum>k<m. (real k + 1) * w ^ (k + 1) * Mr ! k ! i ! j)"
      by (rule weighted_terms)
    finally show "mat_sub (getFreqDependentStiffMtx exact_arith m Kr Mr w)
                 (getEffectiveStiffMtx exact_arith m Kr Mr w) ! i ! j =
        mat_of_entries n n (\<lambda>i j. \<Sum>k<m. (real k + 1) * w ^ (k + 1) * Mr ! k ! i ! j) ! i ! j"
      using ij by (simp add: entry_of_entries)
  qed
  have e: "getFreqDependentStiffMtx exact_arith 1 [[1]] [[[1]]] 1 = [[1]] \<and>
         getEffectiveStiffMtx exact_arith 1 [[1]] [[[1]]] 1 = [[0]]"
    by (simp add: getFreqDependentStiffMtx_def getEffectiveStiffMtx_def exact_arith_def
        cwise_def cwise2_def)
  show ?thesis using a b c d e by blast
qed


theorem getFreqDependentStiffMtx_formula_witness:
  "mat_ok 2 2 [[7, 1], [1, 9 :: real]] \<and>
   list_all (mat_ok 2 2) [[[1, 0], [0, 1]], [[2, 1], [1, 2 :: real]]] \<and>
   length [[[1, 0], [0, 1]], [[2, 1], [1, 2 :: real]]] = 2 \<and> (1::nat) \<le> 2 \<and>
   getFreqDependentStiffMtx exact_arith 2 [[7, 1], [1, 9]] [[[1, 0], [0, 1]], [[2, 1], [1, 2]]] 2 =
     mat_of_entries 2 2 (\<lambda>i j. [[7, 1], [1, 9]] ! i ! j +
        (\<Sum>k=1..<2. real k * 2 ^ (k + 1) * [[[1, 0], [0, 1]], [[2, 1], [1, 2]]] ! k ! i ! j)) \<and>
   getFreqDependentStiffMtx exact_arith 2 [[7, 1], [1, 9]] [[[1, 0], [0, 1]], [[2, 1], [1, 2]]] 2 =
     [[15, 5], [5, 17]] \<and>
   getEffectiveStiffMtx exact_arith 2 [[7, 1], [1, 9]] [[[1, 0], [0, 1]], [[2, 1], [1, 2]]] 2 =
     [[- 3, - 3], [- 3, - 1]]"
proof -
  have h: "mat_ok 2 2 [[7, 1], [1, 9 :: real]]"
    "list_all (mat_ok 2 2) [[[1, 0], [0, 1]], [[2, 1], [1, 2 :: real]]]"
    "length [[[1, 0], [0, 1]], [[2, 1], [1, 2 :: real]]] = 2"
    by (simp_all add: mat_ok_def)
  have l: "(1::nat) \<le> 2" by simp
  have v: "getFreqDependentStiffMtx exact_arith 2 [[7, 1], [1, 9]] [[[1, 0], [0, 1]], [[2, 1], [1, 2]]] 2 =
     [[15, 5], [5, 17]]"
    by (simp add: getFreqDependentStiffMtx_def exact_arith_def cwise_def cwise2_def upt_rec)
  have u: "getEffectiveStiffMtx exact_arith 2 [[7, 1], [1, 9]] [[[1, 0], [0, 1]], [[2, 1], [1, 2]]] 2 =
     [[- 3, - 3], [- 3, - 1]]"
    by (simp add: getEffectiveStiffMtx_def exact_arith_def cwise_def cwise2_def upt_rec)
  have f: "getFreqDependentStiffMtx exact_arith 2 [[7, 1], [1, 9]] [[[1, 0], [0, 1]], [[2, 1], [1, 2]]] 2 =
     mat_of_entries 2 2 (\<lambda>i j. [[7, 1], [1, 9]] ! i ! j +
        (\<Sum>k=1..<2. real k * 2 ^ (k + 1) * [[[1, 0], [0, 1]], [[2, 1], [1, 2]]] ! k ! i ! j))"
    using getFreqDependentStiffMtx_formula[OF h h l, THEN conjunct2, THEN conjunct2,
        THEN conjunct1, of 2] .
  show ?thesis
    by (rule conjI[OF h(1) conjI[OF h(2) conjI[OF h(3) conjI[OF l conjI[OF f conjI[OF v u]]]]]])
qed


text \<open>
  Claim C6, as stated, fails: the two operations do not differ on all inputs. At
  \<open>omega = 0\<close>, on which every run of \<open>execute\<close> calls them first, both return \<open>K0\<close>.
  The values are small integers, on which the operations on \<^verbatim>\<open>double\<close> are exact.
\<close>

theorem stiffness_operations_agree_at_zero:
  "getFreqDependentStiffMtx exact_arith 2 [[2, 0], [0, 2]] [[[1, 0], [0, 1]], [[3, 1], [1, 3]]] 0 =
     [[2, 0], [0, 2]] \<and>
   getEffectiveStiffMtx exact_arith 2 [[2, 0], [0, 2]] [[[1, 0], [0, 1]], [[3, 1], [1, 3]]] 0 =
     [[2, 0], [0, 2]]"
  by (simp add: getFreqDependentStiffMtx_def getEffectiveStiffMtx_def exact_arith_def
      cwise_def cwise2_def upt_rec)

text \<open>
  Claim C8. With eigenvalue index 0 the projection of the effective stiffness matrix has
  no step to take: for every \<open>Keff\<close> and every deflation basis it returns \<open>Keff\<close> as it
  was given.
\<close>

theorem projectEffectiveStiffMatrix_first_index:
  "projectEffectiveStiffMatrix Keff B_s 0 = Keff"
  by (simp add: projectEffectiveStiffMatrix_def)

section \<open>The inner linear solve\<close>

text \<open>
  Claim C4. For every matrix \<open>A\<close> and right-hand side \<open>b\<close> (symmetric or not), the
  boolean that \<open>iterativeLinearSolver\<close> returns is true exactly when the error estimate
  reported by the conjugate-gradient solver is not smaller than the tolerance
  \<open>1e-12\<close>, and false when the estimate is below it.
\<close>

theorem iterativeLinearSolver_status:
  "fst (snd (iterativeLinearSolver linsolver A b)) = (\<not> snd (linsolver A b) < 1 / 10 ^ 12)"
  by (simp add: iterativeLinearSolver_def split: prod.splits)

text \<open>
  Claim C9. A call of \<open>iterativeLinearSolver\<close> with the matrix at address \<open>A\<close>, the
  right-hand side at address \<open>b\<close> and the output vector at another address \<open>x\<close> leaves
  every matrix of the store, \<open>A\<close> among them, and the vector \<open>b\<close> as they were: the only
  object written is the vector at \<open>x\<close>, which receives the solution.
\<close>

theorem iterativeLinearSolver_frame:
  assumes "x \<noteq> b"
  shows "mats (fst (iterativeLinearSolver_ref linsolver A b x h)) = mats h \<and>
         vecs (fst (iterativeLinearSolver_ref linsolver A b x h)) b = vecs h b \<and>
         (\<forall>r. r \<noteq> x \<longrightarrow> vecs (fst (iterativeLinearSolver_ref linsolver A b x h)) r = vecs h r) \<and>
         vecs (fst (iterativeLinearSolver_ref linsolver A b x h)) x =
           fst (linsolver (mats h A) (vecs h b))"
  using assms
  by (simp add: iterativeLinearSolver_ref_def iterativeLinearSolver_def split: prod.splits)

theorem iterativeLinearSolver_frame_witness:
  "(2::nat) \<noteq> 1 \<and>
   mats (fst (iterativeLinearSolver_ref (\<lambda>A b. ([3, 4], 0)) 0 1 2
          \<lparr>mats = (\<lambda>a. [[2, 0], [0, 2]]), vecs = (\<lambda>a. if a = 1 then [6, 8] else [0, 0])\<rparr>)) 0
     = [[2, 0], [0, 2]] \<and>
   vecs (fst (iterativeLinearSolver_ref (\<lambda>A b. ([3, 4], 0)) 0 1 2
          \<lparr>mats = (\<lambda>a. [[2, 0], [0, 2]]), vecs = (\<lambda>a. if a = 1 then [6, 8] else [0, 0])\<rparr>)) 1
     = [6, 8] \<and>
   vecs (fst (iterativeLinearSolver_ref (\<lambda>A b. ([3, 4], 0)) 0 1 2
          \<lparr>mats = (\<lambda>a. [[2, 0], [0, 2]]), vecs = (\<lambda>a. if a = 1 then [6, 8] else [0, 0])\<rparr>)) 2
     = [3, 4]"
proof -
  have h: "(2::nat) \<noteq> 1" by simp
  show ?thesis
    using h iterativeLinearSolver_frame[OF h, of "\<lambda>A b. ([3, 4], 0)" 0
        "\<lparr>mats = (\<lambda>a. [[2, 0], [0, 2]]), vecs = (\<lambda>a. if a = 1 then [6, 8] else [0, 0])\<rparr>"]
    by simp
qed

section \<open>The reader\<close>

lemma read_entry_ok: "mat_ok r c (snd st) \<Longrightarrow> mat_ok r c (snd (read_entry ii jj st))"
  by (cases st) (simp add: read_entry_def mat_ok_update split: prod.splits)

lemma read_matrix_ok: "mat_ok r c (snd st) \<Longrightarrow> mat_ok r c (snd (read_matrix n st))"
  unfolding read_matrix_def
  by (rule fold_invariant, assumption, rule fold_invariant, assumption, rule read_entry_ok)

lemma read_mass_ok:
  assumes "mat_ok n n (fst (snd st)) \<and> list_all (mat_ok n n) (snd (snd st))"
  shows "mat_ok n n (fst (snd (read_mass n st))) \<and> list_all (mat_ok n n) (snd (snd (read_mass n st)))"
proof -
  obtain fid Mtemp MM where st: "st = (fid, Mtemp, MM)" by (cases st)
  obtain fid' Mtemp' where rd: "read_matrix n (fid, Mtemp) = (fid', Mtemp')"
    by (cases "read_matrix n (fid, Mtemp)")
  have "mat_ok n n (snd (read_matrix n (fid, Mtemp)))"
    using assms st by (intro read_matrix_ok) simp
  then have "mat_ok n n Mtemp'" using rd by simp
  then show ?thesis using assms st rd by (simp add: read_mass_def)
qed

lemma read_mass_snoc: "length (snd (snd (read_mass n st))) = length (snd (snd st)) + 1"
  by (cases st) (simp add: read_mass_def split: prod.splits)

lemma read_mass_length:
  "length (snd (snd (fold (\<lambda>im. read_mass n) [0..<m] st))) = length (snd (snd st)) + m"
  by (induction m) (simp_all add: read_mass_snoc)

lemma read_opened:
  assumes "can_open f" and "counts f = (n, m, p)"
  shows "\<exists>logs s' K0 MM'. readFileAndGetStiffMassMatrices s f MM = (logs, Inr (s', K0, MM')) \<and>
           m_Dimensions s' = n \<and> m_NumberOfMassMtx s' = m \<and> m_NumberOfEigenValues s' = p \<and>
           m_MaxIter s' = m_MaxIter s \<and> m_TOL s' = m_TOL s \<and> m_FilePath s' = m_FilePath s \<and>
           mat_ok n n K0 \<and> length MM' = length MM + m \<and>
           (list_all (mat_ok n n) MM \<longrightarrow> list_all (mat_ok n n) MM')"
proof -
  let ?fid = "\<lparr>pending = tokens f, failbit = False\<rparr>"
  obtain fid1 K0 where r1: "read_matrix n (?fid, zero_mat n n) = (fid1, K0)"
    by (cases "read_matrix n (?fid, zero_mat n n)")
  obtain fid2 Mtemp MM' where
    r2: "fold (\<lambda>im. read_mass n) [0..<m] (fid1, zero_mat n n, MM) = (fid2, Mtemp, MM')"
    by (cases "fold (\<lambda>im. read_mass n) [0..<m] (fid1, zero_mat n n, MM)")
  have "mat_ok n n (snd (read_matrix n (?fid, zero_mat n n)))"
    by (rule read_matrix_ok) (simp add: mat_ok_zero)
  then have K0: "mat_ok n n K0" using r1 by simp
  have len: "length MM' = length MM + m"
    using read_mass_length[of n m "(fid1, zero_mat n n, MM)"] r2 by simp
  have ok: "list_all (mat_ok n n) MM'" if "list_all (mat_ok n n) MM"
  proof -
    let ?P = "\<lambda>st. mat_ok n n (fst (snd st)) \<and> list_all (mat_ok n n) (snd (snd st))"
    have "?P (fold (\<lambda>im. read_mass n) [0..<m] (fid1, zero_mat n n, MM))"
      by (rule fold_invariant[where P = ?P]) (simp_all add: mat_ok_zero that read_mass_ok)
    then show ?thesis using r2 by simp
  qed
  show ?thesis
    using assms r1 r2 K0 len ok
    by (simp add: readFileAndGetStiffMassMatrices_def Let_def)
qed

text \<open>
  Claim C10. When the input file opens and declares the counts \<open>n\<close>, \<open>m\<close> and \<open>p\<close>,
  \<open>readFileAndGetStiffMassMatrices\<close>, called as \<open>execute\<close> calls it (with an empty list
  of mass matrices), returns normally: the three members hold \<open>n\<close>, \<open>m\<close> and \<open>p\<close>, \<open>K0\<close>
  has \<open>n\<close> rows and \<open>n\<close> columns, and the list of mass matrices holds exactly \<open>m\<close>
  matrices, each with \<open>n\<close> rows and \<open>n\<close> columns.
\<close>

theorem readFile_dimensions:
  assumes "can_open f" and "counts f = (n, m, p)"
  shows "\<exists>logs s' K0 MM.
           readFileAndGetStiffMassMatrices s f [] = (logs, Inr (s', K0, MM)) \<and>
           m_Dimensions s' = n \<and> m_NumberOfMassMtx s' = m \<and> m_NumberOfEigenValues s' = p \<and>
           mat_ok n n K0 \<and> length MM = m \<and> list_all (mat_ok n n) MM"
  using read_opened[OF assms, of s "[]"] by auto

theorem readFile_dimensions_witness:
  "can_open \<lparr>can_open = True, counts = (2, 1, 1),
             tokens = [Num 2, Num 0, Num 0, Num 2, Num 1, Num 0, Num 0, Num 1]\<rparr> \<and>
   counts \<lparr>can_open = True, counts = (2, 1, 1),
           tokens = [Num 2, Num 0, Num 0, Num 2, Num 1, Num 0, Num 0, Num 1]\<rparr> = (2, 1, 1) \<and>
   (\<exists>logs s' K0 MM.
      readFileAndGetStiffMassMatrices (NLEigenJacobiDavidson ''data/input.dat'')
        \<lparr>can_open = True, counts = (2, 1, 1),
         tokens = [Num 2, Num 0, Num 0, Num 2, Num 1, Num 0, Num 0, Num 1]\<rparr> []
        = (logs, Inr (s', K0, MM)) \<and>
      m_Dimensions s' = 2 \<and> m_NumberOfMassMtx s' = 1 \<and> m_NumberOfEigenValues s' = 1 \<and>
      mat_ok 2 2 K0 \<and> length MM = 1 \<and> list_all (mat_ok 2 2) MM)"
  using readFile_dimensions[of "\<lparr>can_open = True, counts = (2, 1, 1),
             tokens = [Num 2, Num 0, Num 0, Num 2, Num 1, Num 0, Num 0, Num 1]\<rparr>" 2 1 1
          "NLEigenJacobiDavidson ''data/input.dat''"]
  by simp

text \<open>
  Claim C3, as the code has it. A number of matrix entries that does not match the
  declared \<open>n\<close> is not detected. The reader reports a fatal error, the exit with code 1,
  when the file cannot be opened, and at no other occasion: when the file opens it
  returns normally whatever follows the counts, logging \<open>K0\<close> and no error, with \<open>K0\<close> and
  the \<open>m\<close> mass matrices of the declared size \<open>n \<times> n\<close>.
\<close>

theorem readFile_fatal_only_unopened:
  assumes "counts f = (n, m, p)"
  shows "(\<not> can_open f \<longrightarrow>
            readFileAndGetStiffMassMatrices s f [] =
              ([LOG_ASSERT True ''ERROR: Error in opening the file!''], Inl (Exit 1))) \<and>
         (can_open f \<longrightarrow>
            (\<exists>s' K0 MM.
               readFileAndGetStiffMassMatrices s f [] =
                 ([LOG_INFO ''Matrix K0 = \<newline> {0}'' [ArgMat K0]], Inr (s', K0, MM)) \<and>
               mat_ok n n K0 \<and> length MM = m \<and> list_all (mat_ok n n) MM))"
proof (intro conjI impI)
  assume "\<not> can_open f"
  then show "readFileAndGetStiffMassMatrices s f [] =
      ([LOG_ASSERT True ''ERROR: Error in opening the file!''], Inl (Exit 1))"
    by (simp add: readFileAndGetStiffMassMatrices_def)
next
  assume op: "can_open f"
  obtain logs s' K0 MM where rd: "readFileAndGetStiffMassMatrices s f [] = (logs, Inr (s', K0, MM))"
    and sz: "mat_ok n n K0" "length MM = m" "list_all (mat_ok n n) MM"
    using read_opened[OF op assms, of s "[]"] by auto
  have "logs = [LOG_INFO ''Matrix K0 = \<newline> {0}'' [ArgMat K0]]"
    using rd op by (auto simp: readFileAndGetStiffMassMatrices_def Let_def split: prod.splits)
  then show "\<exists>s' K0 MM.
      readFileAndGetStiffMassMatrices s f [] =
        ([LOG_INFO ''Matrix K0 = \<newline> {0}'' [ArgMat K0]], Inr (s', K0, MM)) \<and>
      mat_ok n n K0 \<and> length MM = m \<and> list_all (mat_ok n n) MM"
    using rd sz by blast
qed

theorem readFile_fatal_only_unopened_witness:
  "counts \<lparr>can_open = True, counts = (2, 1, 1), tokens = [Num 2, Num 0, Num 0]\<rparr> = (2, 1, 1) \<and>
   can_open \<lparr>can_open = True, counts = (2, 1, 1), tokens = [Num 2, Num 0, Num 0]\<rparr> \<and>
   (\<exists>s' K0 MM.
      readFileAndGetStiffMassMatrices (NLEigenJacobiDavidson ''data/input.dat'')
        \<lparr>can_open = True, counts = (2, 1, 1), tokens = [Num 2, Num 0, Num 0]\<rparr> [] =
        ([LOG_INFO ''Matrix K0 = \<newline> {0}'' [ArgMat K0]], Inr (s', K0, MM)) \<and>
      mat_ok 2 2 K0 \<and> length MM = 1 \<and> list_all (mat_ok 2 2) MM)"
  using readFile_fatal_only_unopened[of
      "\<lparr>can_open = True, counts = (2, 1, 1), tokens = [Num 2, Num 0, Num 0]\<rparr>" 2 1 1
      "NLEigenJacobiDavidson ''data/input.dat''"]
  by simp

text \<open>
  Claim C3, as stated, fails: a file that declares \<open>n = 2\<close>, one mass matrix and one
  eigenvalue, and then holds three numbers where eight are due, is read without any
  error. The reader returns normally, \<open>K0\<close> filled up with zeros and the mass matrix
  all zero.
\<close>

theorem readFile_short_file_accepted:
  "readFileAndGetStiffMassMatrices (NLEigenJacobiDavidson ''data/input.dat'')
     \<lparr>can_open = True, counts = (2, 1, 1), tokens = [Num 2, Num 0, Num 0]\<rparr> [] =
   ([LOG_INFO ''Matrix K0 = \<newline> {0}'' [ArgMat [[2, 0], [0, 0]]]],
    Inr (\<lparr>m_Dimensions = 2, m_NumberOfMassMtx = 1, m_NumberOfEigenValues = 1,
          m_MaxIter = 20, m_TOL = 1 / 10 ^ 12, m_FilePath = ''data/input.dat''\<rparr>,
         [[2, 0], [0, 0]], [[[0, 0], [0, 0]]]))"
  by (simp add: readFileAndGetStiffMassMatrices_def NLEigenJacobiDavidson_def read_matrix_def
      read_mass_def read_entry_def stream_extract_def zero_mat_def upt_rec numeral_2_eq_2)

section \<open>The loops of execute\<close>

lemma inner_while_passes:
  assumes "iterK \<le> m_MaxIter s" and "inner_while k s ie iterK w conv = (w', conv', it, logs)"
  shows "iterK \<le> it \<and> it \<le> m_MaxIter s + 1 \<and>
         (w', conv') = body_runs k s ie (nat (it - iterK)) iterK (w, conv) \<and>
         (\<forall>c<nat (it - iterK). abs_exceeds (snd (body_runs k s ie c iterK (w, conv))) (m_TOL s)) \<and>
         (it \<le> m_MaxIter s \<longrightarrow> \<not> abs_exceeds conv' (m_TOL s)) \<and>
         logs = body_logs k s ie (nat (it - iterK)) iterK w @
                (if m_MaxIter s < it
                 then [LOG_ERROR ''Error: It has reached the max. number of iterations!!''] else [])"
  using assms
proof (induction k s ie iterK w conv arbitrary: w' conv' it logs rule: inner_while.induct)
  case (1 k s ie iterK w conv)
  show ?case
  proof (cases "abs_exceeds conv (m_TOL s)")
    case False
    with "1.prems" show ?thesis by simp
  next
    case True
    obtain w1 c1 l1 where it1: "iteration k s ie iterK w = (w1, c1, l1)"
      by (cases "iteration k s ie iterK w")
    show ?thesis
    proof (cases "iterK + 1 > m_MaxIter s")
      case cap: True
      have res: "w' = w1" "conv' = c1" "it = iterK + 1"
        "logs = l1 @ [LOG_ERROR ''Error: It has reached the max. number of iterations!!'']"
        using "1.prems"(2) True it1 cap by simp_all
      have n: "nat (it - iterK) = Suc 0" using res by simp
      show ?thesis unfolding n using res it1 "1.prems"(1) True cap by simp
    next
      case nocap: False
      obtain w2 c2 it2 l2 where rec: "inner_while k s ie (iterK + 1) w1 c1 = (w2, c2, it2, l2)"
        by (cases "inner_while k s ie (iterK + 1) w1 c1")
      have le: "iterK + 1 \<le> m_MaxIter s" using nocap by simp
      note IH = "1.IH"[OF True it1[symmetric] refl nocap le rec]
      have res: "w' = w2" "conv' = c2" "it = it2" "logs = l1 @ l2"
        using "1.prems"(2) True it1 nocap rec by simp_all
      have n: "nat (it - iterK) = Suc (nat (it2 - (iterK + 1)))" using IH res by linarith
      have all: "\<forall>c<Suc (nat (it2 - (iterK + 1))).
                   abs_exceeds (snd (body_runs k s ie c iterK (w, conv))) (m_TOL s)"
      proof (intro allI impI)
        fix c assume c: "c < Suc (nat (it2 - (iterK + 1)))"
        show "abs_exceeds (snd (body_runs k s ie c iterK (w, conv))) (m_TOL s)"
        proof (cases c)
          case 0
          then show ?thesis using True by simp
        next
          case (Suc c')
          then show ?thesis using IH c it1 by simp
        qed
      qed
      show ?thesis unfolding n using IH res it1 all by simp
    qed
  qed
qed


lemma eigen_fold:
  "fold (eigen_index k s) [0..<p] (initialise k s K0 MM, [], []) =
     (index_state k s K0 MM p, map (index_iterK k s K0 MM) [0..<p],
      concat (map (index_logs k s K0 MM) [0..<p]))"
proof (induction p)
  case 0
  show ?case by simp
next
  case (Suc p)
  obtain w' conv' it l where r:
    "inner_while k s p 0 (start_index k p (index_state k s K0 MM p)) (Finite 1) = (w', conv', it, l)"
    by (cases "inner_while k s p 0 (start_index k p (index_state k s K0 MM p)) (Finite 1)")
  show ?case
    using Suc r by (simp add: eigen_index_def index_iterK_def index_logs_def)
qed

lemma index_iterK_bound:
  assumes "0 \<le> m_MaxIter s"
  shows "iter_bound s (index_iterK k s K0 MM ie) \<and> (m_TOL s < 1 \<longrightarrow> 1 \<le> index_iterK k s K0 MM ie)"
proof -
  let ?w = "start_index k ie (index_state k s K0 MM ie)"
  obtain w' conv' it l where r: "inner_while k s ie 0 ?w (Finite 1) = (w', conv', it, l)"
    by (cases "inner_while k s ie 0 ?w (Finite 1)")
  note P = inner_while_passes[OF assms r]
  have b: "0 \<le> it \<and> it \<le> m_MaxIter s + 1" using P by simp
  have "1 \<le> it" if tol: "m_TOL s < 1"
  proof (rule ccontr)
    assume "\<not> 1 \<le> it"
    then have z: "it = 0" using b by simp
    have eq: "(w', conv') = body_runs k s ie (nat (it - 0)) 0 (?w, Finite 1)"
      using P by blast
    have ne: "it \<le> m_MaxIter s \<longrightarrow> \<not> abs_exceeds conv' (m_TOL s)"
      using P by blast
    have "conv' = Finite 1" using eq z by simp
    then have "\<not> abs_exceeds (Finite 1) (m_TOL s)" using ne z assms by simp
    then show False using tol by simp
  qed
  moreover have "index_iterK k s K0 MM ie = it"
    unfolding index_iterK_def r by simp
  ultimately show ?thesis using b by (simp add: iter_bound_def)
qed

lemma index_iterK_all:
  assumes "0 \<le> m_MaxIter s"
  shows "list_all (iter_bound s) (map (index_iterK k s K0 MM) [0..<p]) \<and>
         (m_TOL s < 1 \<longrightarrow> list_all (\<lambda>iterK. 1 \<le> iterK) (map (index_iterK k s K0 MM) [0..<p]))"
  using index_iterK_bound[OF assms, of k K0 MM] by (auto simp: list_all_length)

lemma iter_bound_cong: "m_MaxIter s' = m_MaxIter s \<Longrightarrow> iter_bound s' = iter_bound s"
  by (simp add: iter_bound_def fun_eq_iff)

lemma execute_by_index:
  assumes "0 \<le> m_MaxIter s" and "can_open f"
  shows "\<exists>rlogs s' K0 MM.
           readFileAndGetStiffMassMatrices s f [] = (rlogs, Inr (s', K0, MM)) \<and>
           m_MaxIter s' = m_MaxIter s \<and> m_TOL s' = m_TOL s \<and>
           m_NumberOfEigenValues s' = snd (snd (counts f)) \<and>
           execute k s f =
             (map Log (LOG_INFO ''Reading filedata...\<newline>'' [] # rlogs @
                       LOG_INFO ''Initialize the matrices...\<newline>'' [] #
                       LOG_INFO ''Processing...'' [] #
                       concat (map (index_logs k s' K0 MM) [0..<snd (snd (counts f))])),
              Inr (index_state k s' K0 MM (snd (snd (counts f))),
                   map (index_iterK k s' K0 MM) [0..<snd (snd (counts f))])) \<and>
           list_all (iter_bound s) (map (index_iterK k s' K0 MM) [0..<snd (snd (counts f))]) \<and>
           (m_TOL s < 1 \<longrightarrow>
              list_all (\<lambda>iterK. 1 \<le> iterK)
                (map (index_iterK k s' K0 MM) [0..<snd (snd (counts f))]))"
proof -
  obtain n m p where c: "counts f = (n, m, p)" by (cases "counts f")
  obtain rlogs s' K0 MM where rd: "readFileAndGetStiffMassMatrices s f [] = (rlogs, Inr (s', K0, MM))"
    and s': "m_NumberOfEigenValues s' = p" "m_MaxIter s' = m_MaxIter s" "m_TOL s' = m_TOL s"
    using read_opened[OF assms(2) c, of s "[]"] by blast
  have m': "0 \<le> m_MaxIter s'" using assms(1) s' by simp
  have ex: "execute k s f =
             (map Log (LOG_INFO ''Reading filedata...\<newline>'' [] # rlogs @
                       LOG_INFO ''Initialize the matrices...\<newline>'' [] #
                       LOG_INFO ''Processing...'' [] #
                       concat (map (index_logs k s' K0 MM) [0..<p])),
              Inr (index_state k s' K0 MM p, map (index_iterK k s' K0 MM) [0..<p]))"
    using rd s' by (simp add: execute_def eigen_fold)
  have b: "list_all (iter_bound s) (map (index_iterK k s' K0 MM) [0..<p]) \<and>
         (m_TOL s < 1 \<longrightarrow> list_all (\<lambda>iterK. 1 \<le> iterK) (map (index_iterK k s' K0 MM) [0..<p]))"
    using index_iterK_all[OF m', of k K0 MM p] s' iter_bound_cong[of s' s] by simp
  show ?thesis
    using rd s' ex b c by simp
qed


text \<open>
  Claim C7. For every eigenvalue index the inner loop of \<open>execute\<close> terminates
  (\<open>inner_while\<close> is a total function: the distance of \<open>iterK\<close> to \<open>m_MaxIter + 1\<close>
  decreases with every turn). Started with \<open>iterK = 0\<close> and a cap \<open>m_MaxIter \<ge> 0\<close>, it
  executes its body \<open>iterK\<close> times, where the final \<open>iterK\<close> is at most \<open>m_MaxIter + 1\<close>:
  the test \<^verbatim>\<open>abs(conv) > m_TOL\<close> held before each of these executions, and when the loop
  stops with \<open>iterK \<le> m_MaxIter\<close> the test fails on the last value of \<open>conv\<close>. The messages
  are those of the executions of the body, followed by the error message exactly when the
  cap was exceeded; the loop then returns like any other. A run of \<open>execute\<close> on a file
  that opens returns normally, and is the run of the inner loop for each of the \<open>p\<close>
  eigenvalue indices in turn: the index \<open>ie + 1\<close> starts from the work space the loop of
  the index \<open>ie\<close> left, whether that loop stopped at the cap or before; every index stays
  within the cap, and takes at least one pass when \<open>m_TOL < 1\<close>, since \<open>conv\<close> starts at
  \<open>1.0\<close>. The constructor sets the cap to 20 and the tolerance to \<open>1e-12\<close>.
\<close>

theorem inner_loop_terminates_within_cap:
  assumes "0 \<le> m_MaxIter s"
  shows "(case inner_while k s ie 0 w conv of
            (w', conv', iterK, logs) \<Rightarrow>
              0 \<le> iterK \<and> iterK \<le> m_MaxIter s + 1 \<and>
              (w', conv') = body_runs k s ie (nat iterK) 0 (w, conv) \<and>
              (\<forall>c<nat iterK. abs_exceeds (snd (body_runs k s ie c 0 (w, conv))) (m_TOL s)) \<and>
              (iterK \<le> m_MaxIter s \<longrightarrow> \<not> abs_exceeds conv' (m_TOL s)) \<and>
              logs = body_logs k s ie (nat iterK) 0 w @
                     (if m_MaxIter s < iterK
                      then [LOG_ERROR ''Error: It has reached the max. number of iterations!!'']
                      else [])) \<and>
         (can_open f \<longrightarrow>
            (\<exists>rlogs s' K0 MM.
               readFileAndGetStiffMassMatrices s f [] = (rlogs, Inr (s', K0, MM)) \<and>
               m_MaxIter s' = m_MaxIter s \<and> m_TOL s' = m_TOL s \<and>
               m_NumberOfEigenValues s' = snd (snd (counts f)) \<and>
               execute k s f =
                 (map Log (LOG_INFO ''Reading filedata...\<newline>'' [] # rlogs @
                           LOG_INFO ''Initialize the matrices...\<newline>'' [] #
                           LOG_INFO ''Processing...'' [] #
                           concat (map (index_logs k s' K0 MM) [0..<snd (snd (counts f))])),
                  Inr (index_state k s' K0 MM (snd (snd (counts f))),
                       map (index_iterK k s' K0 MM) [0..<snd (snd (counts f))])) \<and>
               list_all (iter_bound s) (map (index_iterK k s' K0 MM) [0..<snd (snd (counts f))]) \<and>
               (m_TOL s < 1 \<longrightarrow>
                  list_all (\<lambda>iterK. 1 \<le> iterK)
                    (map (index_iterK k s' K0 MM) [0..<snd (snd (counts f))])))) \<and>
         m_MaxIter (NLEigenJacobiDavidson filepath) = 20 \<and>
         m_TOL (NLEigenJacobiDavidson filepath) = 1 / 10 ^ 12"
proof -
  obtain w' conv' iterK logs where r: "inner_while k s ie 0 w conv = (w', conv', iterK, logs)"
    by (cases "inner_while k s ie 0 w conv")
  have a: "case inner_while k s ie 0 w conv of
            (w', conv', iterK, logs) \<Rightarrow>
              0 \<le> iterK \<and> iterK \<le> m_MaxIter s + 1 \<and>
              (w', conv') = body_runs k s ie (nat iterK) 0 (w, conv) \<and>
              (\<forall>c<nat iterK. abs_exceeds (snd (body_runs k s ie c 0 (w, conv))) (m_TOL s)) \<and>
              (iterK \<le> m_MaxIter s \<longrightarrow> \<not> abs_exceeds conv' (m_TOL s)) \<and>
              logs = body_logs k s ie (nat iterK) 0 w @
                     (if m_MaxIter s < iterK
                      then [LOG_ERROR ''Error: It has reached the max. number of iterations!!'']
                      else [])"
    using inner_while_passes[OF assms r] r by simp
  have e: "m_MaxIter (NLEigenJacobiDavidson filepath) = 20 \<and>
         m_TOL (NLEigenJacobiDavidson filepath) = 1 / 10 ^ 12"
    by (simp add: NLEigenJacobiDavidson_def)
  show ?thesis
    using a e execute_by_index[OF assms, of f k] by blast
qed

theorem inner_loop_terminates_within_cap_witness:
  "0 \<le> m_MaxIter (NLEigenJacobiDavidson ''data/input.dat'') \<and>
   can_open \<lparr>can_open = True, counts = (1, 1, 2), tokens = [Num 2, Num 1]\<rparr> \<and>
   inner_while two_speed_kernel (NLEigenJacobiDavidson ''data/input.dat'') 0 0 1 (Finite 1)
     = (1 / 10 ^ 14, Finite (1 / 10 ^ 14), 2, []) \<and>
   inner_while two_speed_kernel (NLEigenJacobiDavidson ''data/input.dat'') 1 0 1 (Finite 1)
     = (1 / 2 ^ 21, Finite (1 / 2 ^ 21), 21,
        [LOG_ERROR ''Error: It has reached the max. number of iterations!!'']) \<and>
   snd (execute two_speed_kernel (NLEigenJacobiDavidson ''data/input.dat'')
          \<lparr>can_open = True, counts = (1, 1, 2), tokens = [Num 2, Num 1]\<rparr>)
     = Inr (1 / 2 ^ 21, [2, 21]) \<and>
   (\<exists>effs w iters.
      execute two_speed_kernel (NLEigenJacobiDavidson ''data/input.dat'')
        \<lparr>can_open = True, counts = (1, 1, 2), tokens = [Num 2, Num 1]\<rparr>
        = (effs, Inr (w, iters)) \<and>
      length iters = 2 \<and>
      list_all (iter_bound (NLEigenJacobiDavidson ''data/input.dat'')) iters \<and>
      list_all (\<lambda>iterK. 1 \<le> iterK) iters)"
proof -
  let ?S = "NLEigenJacobiDavidson ''data/input.dat''"
  let ?F = "\<lparr>can_open = True, counts = (1, 1, 2), tokens = [Num 2, Num 1]\<rparr>"
  have h: "0 \<le> m_MaxIter ?S"
    by (simp add: NLEigenJacobiDavidson_def)
  have o: "can_open ?F" by simp
  have t: "m_TOL ?S < 1" by (simp add: NLEigenJacobiDavidson_def)
  have v0: "inner_while two_speed_kernel ?S 0 0 1 (Finite 1)
     = (1 / 10 ^ 14, Finite (1 / 10 ^ 14), 2, [])"
    by (simp add: two_speed_kernel_def NLEigenJacobiDavidson_def)
  have v1: "inner_while two_speed_kernel ?S 1 0 1 (Finite 1)
     = (1 / 2 ^ 21, Finite (1 / 2 ^ 21), 21,
        [LOG_ERROR ''Error: It has reached the max. number of iterations!!''])"
    by (simp add: two_speed_kernel_def NLEigenJacobiDavidson_def)
  have v2: "snd (execute two_speed_kernel ?S ?F) = Inr (1 / 2 ^ 21, [2, 21])"
    by (simp add: execute_def eigen_index_def readFileAndGetStiffMassMatrices_def read_matrix_def
        read_mass_def read_entry_def stream_extract_def zero_mat_def upt_rec numeral_2_eq_2
        two_speed_kernel_def NLEigenJacobiDavidson_def)
  have e: "\<exists>effs w iters.
      execute two_speed_kernel ?S ?F = (effs, Inr (w, iters)) \<and>
      length iters = 2 \<and> list_all (iter_bound ?S) iters \<and> list_all (\<lambda>iterK. 1 \<le> iterK) iters"
    using inner_loop_terminates_within_cap[OF h, THEN conjunct2, THEN conjunct1,
        of ?F two_speed_kernel] o t
    by auto
  show ?thesis
    by (rule conjI[OF h conjI[OF o conjI[OF v0 conjI[OF v1 conjI[OF v2 e]]]]])
qed

section \<open>What execute writes\<close>

lemma no_write_logs: "filter is_write (map Log logs) = []"
  by (induction logs) simp_all


lemma printResults_writes:
  assumes "directory = (case rfind CHR ''/'' (m_FilePath s) of
                          Some last_slash_idx \<Rightarrow> take last_slash_idx (m_FilePath s)
                        | None \<Rightarrow> [])"
    and "opens (directory @ ''/Phi.dat'')" and "opens (directory @ ''/Omega.dat'')"
  shows "filter is_write (fst (printResults s opens Omega Phi)) =
           [Write (directory @ ''/Phi.dat'') (PhiData (m_Dimensions s) (m_NumberOfEigenValues s) Phi),
            Write (directory @ ''/Omega.dat'') (OmegaData (m_NumberOfEigenValues s) Omega)]"
  using assms by (simp add: printResults_def Let_def)

text \<open>
  Claim C1 does not hold of the code: \<open>execute\<close> never calls \<open>printResults\<close>. Whatever
  the numerical kernel, the object and the input file, also when the eigenvalue loop runs
  to its end, a run of \<open>execute\<close> writes no result file: its effects are messages only.
\<close>

theorem execute_writes_nothing:
  "filter is_write (fst (execute k s f)) = []"
  by (simp add: execute_def no_write_logs split: prod.splits sum.splits)

section \<open>The column written by the orthogonalisation\<close>

text \<open>
  Claim C2 does not hold of the code. For the second eigenvalue (\<open>ie = 1\<close>, \<open>is = 0\<close>),
  with the deflation basis all zero as \<open>execute\<close> initialises it, the mass matrix
  \<open>[[2, 0], [0, 3]]\<close> and the accepted eigenvector \<open>(1, 1)\<close>: the product
  \<open>Mlrls * Phi.col(0) = (2, 3)\<close> is stored into column \<open>ie = 1\<close> of \<open>B_r\<close>, not into
  column \<open>is = 0\<close>; column 0 is still zero when it is normalised, and the division by
  its norm is a division by zero.
\<close>

theorem orthogonalize_basis_stores_in_current_column:
  "orth_store 2 1 [[[2, 0], [0, 3]]] [5, 5] [[1, 0], [1, 0]] 1 0 (zero_mat 2 2)
     = [[0, 2], [0, 3]] \<and>
   orthogonalize_basis 2 1 [[[2, 0], [0, 3]]] [5, 5] [[1, 0], [1, 0]] 1 (zero_mat 2 2)
     = Inl NonFinite"
  by (simp add: orthogonalize_basis_def orth_store_def orth_project_def orth_normalize_def
      getGeneralizedFreqDependentMassMtx_def zero_mat_def set_col_def col_def mat_vec_def dot_def
      mat_add_def mat_scale_def vec_add_def vec_scale_def upt_rec numeral_2_eq_2)

end
